theory Spec2Isabelle
  imports Complex_Main "HOL-Library.AList" "HOL-Library.Sublist"
begin

section \<open>Generic structured values\<close>

text \<open>
  The three functions of \<^verbatim>\<open>value_utils.py\<close> work on already parsed Python values:
  \<^verbatim>\<open>None\<close>, booleans, integers, floats, strings, lists and dictionaries with string
  keys. A dictionary is an association list in insertion order (its keys are distinct in
  every value Python can build); a list is a list.

  Strings are lists of code points below 256. A float is modelled only as far as
  \<^verbatim>\<open>==\<close> looks at it: it is not-a-number, an infinity, or a finite value (a rational
  number; both zeros are the rational 0, which is how \<^verbatim>\<open>==\<close> treats them).
\<close>

datatype pyfloat = NaN | PosInf | NegInf | Finite rat

datatype "value" =
    VNone
  | VBool bool
  | VInt int
  | VFloat pyfloat
  | VStr string
  | VList "value list"
  | VDict "(string \<times> value) list"

text \<open>A Scalar is every value that is neither a list nor a dictionary.\<close>

fun is_scalar :: "value \<Rightarrow> bool" where
  "is_scalar (VList xs) = False"
| "is_scalar (VDict d) = False"
| "is_scalar v = True"

text \<open>Nesting depth: 0 for a Scalar, one more than the deepest element otherwise.\<close>

fun depth :: "value \<Rightarrow> nat"
  and depth_list :: "value list \<Rightarrow> nat"
  and depth_items :: "(string \<times> value) list \<Rightarrow> nat" where
  "depth (VList xs) = Suc (depth_list xs)"
| "depth (VDict d) = Suc (depth_items d)"
| "depth VNone = 0"
| "depth (VBool b) = 0"
| "depth (VInt i) = 0"
| "depth (VFloat f) = 0"
| "depth (VStr s) = 0"
| "depth_list [] = 0"
| "depth_list (x # xs) = max (depth x) (depth_list xs)"
| "depth_items [] = 0"
| "depth_items (kv # d) = max (depth (snd kv)) (depth_items d)"

section \<open>Python primitives used by the source\<close>

subsection \<open>Strings\<close>

text \<open>
  \<^verbatim>\<open>str.lower()\<close> on code points below 256: the letters A to Z and the Latin-1 capitals
  (192 to 222 without the multiplication sign 215) move up by 32; nothing else changes.
\<close>

definition lower_char :: "char \<Rightarrow> char" where
  "lower_char c =
     (let n = (of_char c :: nat) in
      if (65 \<le> n \<and> n \<le> 90) \<or> (192 \<le> n \<and> n \<le> 222 \<and> n \<noteq> 215)
      then char_of (n + 32) else c)"

definition lower :: "string \<Rightarrow> string" where
  "lower s = map lower_char s"

text \<open>\<^verbatim>\<open>s.replace(" ", "")\<close>: every occurrence of the space character U+0020 is dropped.\<close>

definition replace_space :: "string \<Rightarrow> string" where
  "replace_space s = filter (\<lambda>c. c \<noteq> CHR '' '') s"

text \<open>\<^verbatim>\<open>a in b\<close> on strings: \<open>a\<close> occurs in \<open>b\<close> as a contiguous block.\<close>

fun starts_with :: "string \<Rightarrow> string \<Rightarrow> bool" where
  "starts_with [] ys = True"
| "starts_with (x # xs) [] = False"
| "starts_with (x # xs) (y # ys) = (x = y \<and> starts_with xs ys)"

fun str_in :: "string \<Rightarrow> string \<Rightarrow> bool" where
  "str_in a [] = (a = [])"
| "str_in a (y # ys) = (starts_with a (y # ys) \<or> str_in a ys)"

text \<open>\<^verbatim>\<open>str(i)\<close> of a list index, as the f-string \<^verbatim>\<open>{i}\<close> renders it: decimal digits.\<close>

definition digit_char :: "nat \<Rightarrow> char" where
  "digit_char n = char_of (48 + n)"

fun str_of_nat :: "nat \<Rightarrow> string" where
  "str_of_nat n =
     (if n < 10 then [digit_char n] else str_of_nat (n div 10) @ [digit_char (n mod 10)])"

declare str_of_nat.simps [simp del]

subsection \<open>Dictionaries\<close>

text \<open>
  \<^verbatim>\<open>dict(items)\<close> inserts the pairs from left to right; a key that is already there keeps
  its place and takes the new value.
\<close>

definition dict :: "(string \<times> value) list \<Rightarrow> (string \<times> value) list" where
  "dict items = foldl (\<lambda>d kv. AList.update (fst kv) (snd kv) d) [] items"

subsection \<open>Native equality\<close>

text \<open>
  \<^verbatim>\<open>a == b\<close>. Booleans are the integers 0 and 1, an integer equals a float of the same
  value, not-a-number equals nothing, lists are equal when they have the same length and
  equal elements in order, dictionaries when they have the same number of keys and every
  key of the left one is in the right one with an equal value. Values of different kinds
  are unequal. Values are compared by content: that CPython takes two references to one
  object inside a container for equal without asking is not modelled.
\<close>

fun bool_int :: "bool \<Rightarrow> int" where
  "bool_int True = 1"
| "bool_int False = 0"

fun float_eq :: "pyfloat \<Rightarrow> pyfloat \<Rightarrow> bool" where
  "float_eq (Finite r) (Finite s) = (r = s)"
| "float_eq PosInf PosInf = True"
| "float_eq NegInf NegInf = True"
| "float_eq f g = False"

fun int_float_eq :: "int \<Rightarrow> pyfloat \<Rightarrow> bool" where
  "int_float_eq i (Finite r) = (of_int i = r)"
| "int_float_eq i f = False"

fun py_eq :: "value \<Rightarrow> value \<Rightarrow> bool"
  and list_eq :: "value list \<Rightarrow> value list \<Rightarrow> bool"
  and items_in :: "(string \<times> value) list \<Rightarrow> (string \<times> value) list \<Rightarrow> bool" where
  "py_eq VNone b = (case b of VNone \<Rightarrow> True | _ \<Rightarrow> False)"
| "py_eq (VBool x) b =
     (case b of VBool y \<Rightarrow> x = y | VInt j \<Rightarrow> bool_int x = j
      | VFloat g \<Rightarrow> int_float_eq (bool_int x) g | _ \<Rightarrow> False)"
| "py_eq (VInt i) b =
     (case b of VBool y \<Rightarrow> i = bool_int y | VInt j \<Rightarrow> i = j
      | VFloat g \<Rightarrow> int_float_eq i g | _ \<Rightarrow> False)"
| "py_eq (VFloat f) b =
     (case b of VBool y \<Rightarrow> int_float_eq (bool_int y) f | VInt j \<Rightarrow> int_float_eq j f
      | VFloat g \<Rightarrow> float_eq f g | _ \<Rightarrow> False)"
| "py_eq (VStr s) b = (case b of VStr t \<Rightarrow> s = t | _ \<Rightarrow> False)"
| "py_eq (VList xs) b = (case b of VList ys \<Rightarrow> list_eq xs ys | _ \<Rightarrow> False)"
| "py_eq (VDict m) b =
     (case b of VDict n \<Rightarrow> length m = length n \<and> items_in m n | _ \<Rightarrow> False)"
| "list_eq [] ys = (ys = [])"
| "list_eq (x # xs) ys = (case ys of [] \<Rightarrow> False | y # ys' \<Rightarrow> py_eq x y \<and> list_eq xs ys')"
| "items_in [] n = True"
| "items_in (kv # m) n =
     (case map_of n (fst kv) of None \<Rightarrow> False | Some w \<Rightarrow> py_eq (snd kv) w \<and> items_in m n)"

section \<open>The source functions\<close>

subsection \<open>\<^verbatim>\<open>flatten_dict\<close>\<close>

text \<open>
  \<^verbatim>\<open>flatten_dict(data, parent_key, sep)\<close>. \<open>flatten_items\<close> is the loop over
  \<^verbatim>\<open>data.items()\<close> and returns the list \<^verbatim>\<open>items\<close>; \<open>flatten_value\<close> is the loop body
  for one pair; \<open>flatten_enum\<close> is the inner loop over \<^verbatim>\<open>enumerate(v)\<close>, started at
  index \<open>i\<close>. The key of a list element is \<^verbatim>\<open>f"{new_key}_{i}"\<close>.
\<close>

text \<open>
  The measure of the recursion: a list element weighs three more than the element itself,
  since it is wrapped into a one-entry dictionary before \<open>flatten_dict\<close> sees it.
\<close>

fun weight :: "value \<Rightarrow> nat"
  and weight_list :: "value list \<Rightarrow> nat"
  and weight_items :: "(string \<times> value) list \<Rightarrow> nat" where
  "weight (VList xs) = Suc (weight_list xs)"
| "weight (VDict d) = Suc (Suc (weight_items d))"
| "weight VNone = 0"
| "weight (VBool b) = 0"
| "weight (VInt i) = 0"
| "weight (VFloat f) = 0"
| "weight (VStr s) = 0"
| "weight_list [] = 0"
| "weight_list (x # xs) = weight x + 3 + weight_list xs"
| "weight_items [] = 0"
| "weight_items (kv # d) = weight (snd kv) + 1 + weight_items d"

function flatten_dict :: "(string \<times> value) list \<Rightarrow> string \<Rightarrow> string \<Rightarrow> (string \<times> value) list"
  and flatten_items :: "(string \<times> value) list \<Rightarrow> string \<Rightarrow> string \<Rightarrow> (string \<times> value) list"
  and flatten_value :: "string \<Rightarrow> value \<Rightarrow> string \<Rightarrow> string \<Rightarrow> (string \<times> value) list"
  and flatten_enum :: "string \<Rightarrow> nat \<Rightarrow> value list \<Rightarrow> string \<Rightarrow> (string \<times> value) list" where
  "flatten_dict data parent_key sep = dict (flatten_items data parent_key sep)"
| "flatten_items [] parent_key sep = []"
| "flatten_items (kv # rest) parent_key sep =
     flatten_value (fst kv) (snd kv) parent_key sep @ flatten_items rest parent_key sep"
| "flatten_value k v parent_key sep =
     (let new_key = (if parent_key \<noteq> [] then parent_key @ sep @ k else k) in
      case v of
        VDict d \<Rightarrow> flatten_dict d new_key sep
      | VList xs \<Rightarrow> flatten_enum new_key 0 xs sep
      | _ \<Rightarrow> [(new_key, v)])"
| "flatten_enum new_key i [] sep = []"
| "flatten_enum new_key i (item # rest) sep =
     flatten_dict [(new_key @ ''_'' @ str_of_nat i, item)] [] sep
       @ flatten_enum new_key (Suc i) rest sep"
  by pat_completeness auto

termination flatten_dict
  by (relation "measure (\<lambda>x. case x of
      Inl (Inl (data, p, s)) \<Rightarrow> weight_items data + 1
    | Inl (Inr (data, p, s)) \<Rightarrow> weight_items data
    | Inr (Inl (k, v, p, s)) \<Rightarrow> weight v
    | Inr (Inr (k, i, xs, s)) \<Rightarrow> weight_list xs)") simp_all

subsection \<open>\<^verbatim>\<open>value_match\<close>\<close>

text \<open>
  \<open>match_zip\<close> is the loop over \<^verbatim>\<open>zip(value_a, value_b)\<close> and \<open>match_keys\<close> the loop
  over the keys of \<^verbatim>\<open>value_a\<close>; each is \<open>False\<close> when the loop returns \<^verbatim>\<open>False\<close> and
  \<open>True\<close> when it runs to its end. After a loop that ran to its end the function goes
  on to its last line, \<^verbatim>\<open>return value_a == value_b\<close>. The loop over the keys walks the
  entries of \<^verbatim>\<open>value_a\<close>, so \<^verbatim>\<open>value_a[key]\<close> is the value of the entry at hand.
\<close>

fun value_match :: "value \<Rightarrow> value \<Rightarrow> bool"
  and match_zip :: "value list \<Rightarrow> value list \<Rightarrow> bool"
  and match_keys :: "(string \<times> value) list \<Rightarrow> (string \<times> value) list \<Rightarrow> bool" where
  "value_match (VStr s) (VStr t) = (lower s = lower t)"
| "value_match (VList xs) (VList ys) =
     (if \<not> match_zip xs ys then False else py_eq (VList xs) (VList ys))"
| "value_match (VDict m) (VDict d) =
     (if \<not> match_keys m d then False else py_eq (VDict m) (VDict d))"
| "value_match a b = py_eq a b"
| "match_zip [] cs = True"
| "match_zip (v # vs) [] = True"
| "match_zip (v # vs) (c # cs) = (if \<not> value_match v c then False else match_zip vs cs)"
| "match_keys [] d = True"
| "match_keys (kv # m) d =
     (case map_of d (fst kv) of
        None \<Rightarrow> False
      | Some w \<Rightarrow> if \<not> value_match (snd kv) w then False else match_keys m d)"

subsection \<open>\<^verbatim>\<open>value_contains\<close>\<close>

text \<open>
  \<open>contains_all\<close> is the loop over \<^verbatim>\<open>value_a\<close>, \<open>contains_any\<close> the
  \<^verbatim>\<open>any(value_contains(v, c) for c in value_b)\<close> inside it, \<open>contains_keys\<close> the loop
  over the keys of \<^verbatim>\<open>value_a\<close>. After a loop that ran to its end the function goes on
  to its last line, \<^verbatim>\<open>return value_match(value_a, value_b)\<close>.
\<close>

fun value_contains :: "value \<Rightarrow> value \<Rightarrow> bool"
  and contains_all :: "value list \<Rightarrow> value list \<Rightarrow> bool"
  and contains_any :: "value \<Rightarrow> value list \<Rightarrow> bool"
  and contains_keys :: "(string \<times> value) list \<Rightarrow> (string \<times> value) list \<Rightarrow> bool" where
  "value_contains (VStr s) (VStr t) = str_in (lower (replace_space s)) (lower (replace_space t))"
| "value_contains (VList xs) (VList ys) =
     (if \<not> contains_all xs ys then False else value_match (VList xs) (VList ys))"
| "value_contains (VDict m) (VDict d) =
     (if \<not> contains_keys m d then False else value_match (VDict m) (VDict d))"
| "value_contains a b = value_match a b"
| "contains_all [] cs = True"
| "contains_all (v # vs) cs = (if \<not> contains_any v cs then False else contains_all vs cs)"
| "contains_any v [] = False"
| "contains_any v (c # cs) = (value_contains v c \<or> contains_any v cs)"
| "contains_keys [] d = True"
| "contains_keys (kv # m) d =
     (case map_of d (fst kv) of
        None \<Rightarrow> False
      | Some w \<Rightarrow> if \<not> value_contains (snd kv) w then False else contains_keys m d)"

section \<open>Recursion depth\<close>

text \<open>
  The same three functions with a budget of stack frames: every call of
  \<^verbatim>\<open>flatten_dict\<close>, \<^verbatim>\<open>value_match\<close> or \<^verbatim>\<open>value_contains\<close> takes one frame, and a call made
  with no frame left does not return (\<open>None\<close>). The loops run inside the frame of the
  call they belong to.
\<close>

function flatten_dict_fuel ::
    "nat \<Rightarrow> (string \<times> value) list \<Rightarrow> string \<Rightarrow> string \<Rightarrow> (string \<times> value) list option"
  and flatten_items_fuel ::
    "nat \<Rightarrow> (string \<times> value) list \<Rightarrow> string \<Rightarrow> string \<Rightarrow> (string \<times> value) list option"
  and flatten_value_fuel ::
    "nat \<Rightarrow> string \<Rightarrow> value \<Rightarrow> string \<Rightarrow> string \<Rightarrow> (string \<times> value) list option"
  and flatten_enum_fuel ::
    "nat \<Rightarrow> string \<Rightarrow> nat \<Rightarrow> value list \<Rightarrow> string \<Rightarrow> (string \<times> value) list option" where
  "flatten_dict_fuel 0 data parent_key sep = None"
| "flatten_dict_fuel (Suc n) data parent_key sep =
     (case flatten_items_fuel n data parent_key sep of
        None \<Rightarrow> None
      | Some items \<Rightarrow> Some (dict items))"
| "flatten_items_fuel n [] parent_key sep = Some []"
| "flatten_items_fuel n (kv # rest) parent_key sep =
     (case flatten_value_fuel n (fst kv) (snd kv) parent_key sep of
        None \<Rightarrow> None
      | Some new \<Rightarrow>
          (case flatten_items_fuel n rest parent_key sep of
             None \<Rightarrow> None
           | Some items \<Rightarrow> Some (new @ items)))"
| "flatten_value_fuel n k v parent_key sep =
     (let new_key = (if parent_key \<noteq> [] then parent_key @ sep @ k else k) in
      case v of
        VDict d \<Rightarrow> flatten_dict_fuel n d new_key sep
      | VList xs \<Rightarrow> flatten_enum_fuel n new_key 0 xs sep
      | _ \<Rightarrow> Some [(new_key, v)])"
| "flatten_enum_fuel n new_key i [] sep = Some []"
| "flatten_enum_fuel n new_key i (item # rest) sep =
     (case flatten_dict_fuel n [(new_key @ ''_'' @ str_of_nat i, item)] [] sep of
        None \<Rightarrow> None
      | Some new \<Rightarrow>
          (case flatten_enum_fuel n new_key (Suc i) rest sep of
             None \<Rightarrow> None
           | Some items \<Rightarrow> Some (new @ items)))"
  by pat_completeness auto

termination flatten_dict_fuel
  by (relation "measure (\<lambda>x. case x of
      Inl (Inl (n, data, p, s)) \<Rightarrow> weight_items data + 1
    | Inl (Inr (n, data, p, s)) \<Rightarrow> weight_items data
    | Inr (Inl (n, k, v, p, s)) \<Rightarrow> weight v
    | Inr (Inr (n, k, i, xs, s)) \<Rightarrow> weight_list xs)") simp_all

fun value_match_fuel :: "nat \<Rightarrow> value \<Rightarrow> value \<Rightarrow> bool option"
  and match_zip_fuel :: "nat \<Rightarrow> value list \<Rightarrow> value list \<Rightarrow> bool option"
  and match_keys_fuel ::
    "nat \<Rightarrow> (string \<times> value) list \<Rightarrow> (string \<times> value) list \<Rightarrow> bool option" where
  "value_match_fuel 0 a b = None"
| "value_match_fuel (Suc n) (VStr s) (VStr t) = Some (lower s = lower t)"
| "value_match_fuel (Suc n) (VList xs) (VList ys) =
     (case match_zip_fuel n xs ys of
        None \<Rightarrow> None
      | Some ok \<Rightarrow> if \<not> ok then Some False else Some (py_eq (VList xs) (VList ys)))"
| "value_match_fuel (Suc n) (VDict m) (VDict d) =
     (case match_keys_fuel n m d of
        None \<Rightarrow> None
      | Some ok \<Rightarrow> if \<not> ok then Some False else Some (py_eq (VDict m) (VDict d)))"
| "value_match_fuel (Suc n) a b = Some (py_eq a b)"
| "match_zip_fuel n [] cs = Some True"
| "match_zip_fuel n (v # vs) [] = Some True"
| "match_zip_fuel n (v # vs) (c # cs) =
     (case value_match_fuel n v c of
        None \<Rightarrow> None
      | Some r \<Rightarrow> if \<not> r then Some False else match_zip_fuel n vs cs)"
| "match_keys_fuel n [] d = Some True"
| "match_keys_fuel n (kv # m) d =
     (case map_of d (fst kv) of
        None \<Rightarrow> Some False
      | Some w \<Rightarrow>
          (case value_match_fuel n (snd kv) w of
             None \<Rightarrow> None
           | Some r \<Rightarrow> if \<not> r then Some False else match_keys_fuel n m d))"

fun value_contains_fuel :: "nat \<Rightarrow> value \<Rightarrow> value \<Rightarrow> bool option"
  and contains_all_fuel :: "nat \<Rightarrow> value list \<Rightarrow> value list \<Rightarrow> bool option"
  and contains_any_fuel :: "nat \<Rightarrow> value \<Rightarrow> value list \<Rightarrow> bool option"
  and contains_keys_fuel ::
    "nat \<Rightarrow> (string \<times> value) list \<Rightarrow> (string \<times> value) list \<Rightarrow> bool option" where
  "value_contains_fuel 0 a b = None"
| "value_contains_fuel (Suc n) (VStr s) (VStr t) =
     Some (str_in (lower (replace_space s)) (lower (replace_space t)))"
| "value_contains_fuel (Suc n) (VList xs) (VList ys) =
     (case contains_all_fuel n xs ys of
        None \<Rightarrow> None
      | Some ok \<Rightarrow> if \<not> ok then Some False else value_match_fuel n (VList xs) (VList ys))"
| "value_contains_fuel (Suc n) (VDict m) (VDict d) =
     (case contains_keys_fuel n m d of
        None \<Rightarrow> None
      | Some ok \<Rightarrow> if \<not> ok then Some False else value_match_fuel n (VDict m) (VDict d))"
| "value_contains_fuel (Suc n) a b = value_match_fuel n a b"
| "contains_all_fuel n [] cs = Some True"
| "contains_all_fuel n (v # vs) cs =
     (case contains_any_fuel n v cs of
        None \<Rightarrow> None
      | Some found \<Rightarrow> if \<not> found then Some False else contains_all_fuel n vs cs)"
| "contains_any_fuel n v [] = Some False"
| "contains_any_fuel n v (c # cs) =
     (case value_contains_fuel n v c of
        None \<Rightarrow> None
      | Some r \<Rightarrow> if r then Some True else contains_any_fuel n v cs)"
| "contains_keys_fuel n [] d = Some True"
| "contains_keys_fuel n (kv # m) d =
     (case map_of d (fst kv) of
        None \<Rightarrow> Some False
      | Some w \<Rightarrow>
          (case value_contains_fuel n (snd kv) w of
             None \<Rightarrow> None
           | Some r \<Rightarrow> if \<not> r then Some False else contains_keys_fuel n m d))"

section \<open>Notions of the specification\<close>

text \<open>
  The pairs that \<^verbatim>\<open>flatten_dict\<close> appends to \<^verbatim>\<open>items\<close> over the whole traversal, one for
  each path of the input that ends in a Scalar, in the order in which the traversal
  reaches them and before any \<^verbatim>\<open>dict(items)\<close> has merged them.
\<close>

fun emit_items :: "(string \<times> value) list \<Rightarrow> string \<Rightarrow> string \<Rightarrow> (string \<times> value) list"
  and emit_value :: "string \<Rightarrow> value \<Rightarrow> string \<Rightarrow> string \<Rightarrow> (string \<times> value) list"
  and emit_enum :: "string \<Rightarrow> nat \<Rightarrow> value list \<Rightarrow> string \<Rightarrow> (string \<times> value) list" where
  "emit_items [] parent_key sep = []"
| "emit_items (kv # rest) parent_key sep =
     emit_value (fst kv) (snd kv) parent_key sep @ emit_items rest parent_key sep"
| "emit_value k v parent_key sep =
     (let new_key = (if parent_key \<noteq> [] then parent_key @ sep @ k else k) in
      case v of
        VDict d \<Rightarrow> emit_items d new_key sep
      | VList xs \<Rightarrow> emit_enum new_key 0 xs sep
      | _ \<Rightarrow> [(new_key, v)])"
| "emit_enum new_key i [] sep = []"
| "emit_enum new_key i (item # rest) sep =
     emit_value (new_key @ ''_'' @ str_of_nat i) item [] sep
       @ emit_enum new_key (Suc i) rest sep"

text \<open>
  Whitespace as the specification means it, "all whitespace, not only space characters":
  the code points below 256 for which \<^verbatim>\<open>str.isspace()\<close> holds.
\<close>

definition is_whitespace :: "char \<Rightarrow> bool" where
  "is_whitespace c = ((of_char c :: nat) \<in> set [9, 10, 11, 12, 13, 28, 29, 30, 31, 32, 133, 160])"

definition remove_whitespace_spec :: "string \<Rightarrow> string" where
  "remove_whitespace_spec s = filter (\<lambda>c. \<not> is_whitespace c) s"

text \<open>Rule 1 of the Container-checker in the specification's words.\<close>

definition contains_str_spec :: "string \<Rightarrow> string \<Rightarrow> bool" where
  "contains_str_spec a b =
     str_in (lower (remove_whitespace_spec a)) (lower (remove_whitespace_spec b))"

section \<open>Facts about \<open>dict\<close>\<close>

lemma set_update_subset: "set (AList.update k v al) \<subseteq> insert (k, v) (set al)"
  by (induction al) auto

lemma set_foldl_update:
  "set (foldl (\<lambda>d kv. AList.update (fst kv) (snd kv) d) acc items) \<subseteq> set acc \<union> set items"
proof (induction items arbitrary: acc)
  case Nil
  show ?case by simp
next
  case (Cons x xs)
  have "set (AList.update (fst x) (snd x) acc) \<subseteq> insert x (set acc)"
    using set_update_subset [of "fst x" "snd x" acc] by simp
  with Cons [of "AList.update (fst x) (snd x) acc"] show ?case by auto
qed

lemma set_dict: "set (dict items) \<subseteq> set items"
  using set_foldl_update [of "[]" items] by (simp add: dict_def)

lemma list_all_dict: "list_all P items \<Longrightarrow> list_all P (dict items)"
  using set_dict [of items] by (auto simp: list_all_iff)

lemma map_of_foldl_update:
  "map_of (foldl (\<lambda>d kv. AList.update (fst kv) (snd kv) d) acc items)
     = map_of acc ++ map_of (rev items)"
proof (induction items arbitrary: acc)
  case Nil
  show ?case by simp
next
  case (Cons x xs)
  obtain k v where x: "x = (k, v)" by (cases x)
  let ?f = "\<lambda>d kv. AList.update (fst kv) (snd kv) d"
  have "map_of (foldl ?f acc (x # xs)) = map_of (foldl ?f (AList.update k v acc) xs)"
    by (simp add: x)
  also have "\<dots> = map_of (AList.update k v acc) ++ map_of (rev xs)"
    by (rule Cons)
  also have "\<dots> = (map_of acc ++ [k \<mapsto> v]) ++ map_of (rev xs)"
    by (simp only: update_conv' map_add_upd map_add_empty)
  also have "\<dots> = map_of acc ++ map_of (rev (x # xs))"
    by (simp add: x map_of_append)
  finally show ?case .
qed

lemma map_of_dict: "map_of (dict items) = map_of (rev items)"
  by (simp add: dict_def map_of_foldl_update)

lemma distinct_foldl_update:
  "distinct (map fst acc) \<Longrightarrow>
   distinct (map fst (foldl (\<lambda>d kv. AList.update (fst kv) (snd kv) d) acc items))"
  by (induction items arbitrary: acc) (simp_all add: distinct_update)

lemma distinct_dict: "distinct (map fst (dict items))"
  by (simp add: dict_def distinct_foldl_update)

lemma map_of_rev_distinct: "distinct (map fst xs) \<Longrightarrow> map_of (rev xs) = map_of xs"
proof (induction xs)
  case Nil
  show ?case by simp
next
  case (Cons x xs)
  obtain k v where x: "x = (k, v)" by (cases x)
  from Cons.prems x have "k \<notin> dom (map_of xs)"
    by (simp add: dom_map_of_conv_image_fst)
  then have "dom [k \<mapsto> v] \<inter> dom (map_of xs) = {}"
    by simp
  then have "[k \<mapsto> v] ++ map_of xs = map_of xs ++ [k \<mapsto> v]"
    by (rule map_add_comm)
  moreover have "map_of (rev (x # xs)) = [k \<mapsto> v] ++ map_of (rev xs)"
    by (simp add: x map_of_append)
  moreover have "map_of (rev xs) = map_of xs"
    using Cons by simp
  ultimately show ?case
    by (simp add: x)
qed

lemma flatten_scalars:
  "list_all (\<lambda>kv. is_scalar (snd kv)) (flatten_dict data p s)"
  "list_all (\<lambda>kv. is_scalar (snd kv)) (flatten_items data p s)"
  "list_all (\<lambda>kv. is_scalar (snd kv)) (flatten_value k v p s)"
  "list_all (\<lambda>kv. is_scalar (snd kv)) (flatten_enum k i xs s)"
proof (induction data p s and data p s and k v p s and k i xs s
    rule: flatten_dict_flatten_items_flatten_value_flatten_enum.induct)
  case (1 data parent_key sep)
  then show ?case by (simp add: list_all_dict)
next
  case (2 parent_key sep)
  show ?case by simp
next
  case (3 kv rest parent_key sep)
  then show ?case by simp
next
  case (4 k v parent_key sep)
  then show ?case by (cases v) (simp_all add: Let_def)
next
  case (5 new_key i sep)
  show ?case by simp
next
  case (6 new_key i item rest sep)
  then show ?case by simp
qed

lemma depth_items_scalars:
  "list_all (\<lambda>kv. is_scalar (snd kv)) d \<Longrightarrow> depth_items d = 0"
proof (induction d)
  case Nil
  show ?case by simp
next
  case (Cons kv d)
  then show ?case by (cases "snd kv") simp_all
qed

lemma flatten_emitted:
  "map_of (flatten_dict data p s) = map_of (rev (emit_items data p s))"
  "map_of (rev (flatten_items data p s)) = map_of (rev (emit_items data p s))"
  "map_of (rev (flatten_value k v p s)) = map_of (rev (emit_value k v p s))"
  "map_of (rev (flatten_enum k i xs s)) = map_of (rev (emit_enum k i xs s))"
proof (induction data p s and data p s and k v p s and k i xs s
    rule: flatten_dict_flatten_items_flatten_value_flatten_enum.induct)
  case (1 data parent_key sep)
  then show ?case by (simp add: map_of_dict)
next
  case (2 parent_key sep)
  show ?case by simp
next
  case (3 kv rest parent_key sep)
  then show ?case by (simp add: map_of_append)
next
  case (4 k v parent_key sep)
  show ?case
  proof (cases v)
    case (VDict d)
    let ?nk = "if parent_key \<noteq> [] then parent_key @ sep @ k else k"
    have "map_of (flatten_dict d ?nk sep) = map_of (rev (emit_items d ?nk sep))"
      by (rule 4(2) [OF refl VDict])
    moreover have "map_of (rev (flatten_dict d ?nk sep)) = map_of (flatten_dict d ?nk sep)"
      by (rule map_of_rev_distinct) (simp add: distinct_dict)
    moreover have "flatten_value k v parent_key sep = flatten_dict d ?nk sep"
      using VDict by (simp add: Let_def del: flatten_dict.simps)
    moreover have "emit_value k v parent_key sep = emit_items d ?nk sep"
      using VDict by (simp add: Let_def)
    ultimately show ?thesis by (simp del: flatten_dict.simps flatten_value.simps emit_value.simps)
  next
    case (VList xs)
    with 4(1) [OF refl VList] show ?thesis
      by (cases "parent_key = []") (simp_all add: Let_def)
  qed (simp_all add: Let_def)
next
  case (5 new_key i sep)
  show ?case by simp
next
  case (6 new_key i item rest sep)
  have "map_of (rev (dict (flatten_items [(new_key @ ''_'' @ str_of_nat i, item)] [] sep)))
      = map_of (dict (flatten_items [(new_key @ ''_'' @ str_of_nat i, item)] [] sep))"
    by (rule map_of_rev_distinct) (rule distinct_dict)
  with 6 show ?case by (simp add: map_of_append Let_def)
qed

section \<open>The Flattener\<close>

text \<open>
  C1. Whatever the dictionary, the parent key and the separator, every value of the
  dictionary that \<^verbatim>\<open>flatten_dict\<close> returns is a Scalar, never a list or a dictionary: the
  result is a dictionary of nesting depth 1.
\<close>

theorem flatten_dict_values_scalar:
  "list_all (\<lambda>kv. is_scalar (snd kv)) (flatten_dict data parent_key sep)
   \<and> depth (VDict (flatten_dict data parent_key sep)) = 1"
proof -
  have "list_all (\<lambda>kv. is_scalar (snd kv)) (flatten_dict data parent_key sep)"
    by (rule flatten_scalars(1))
  then show ?thesis
    by (simp add: depth_items_scalars del: flatten_dict.simps)
qed

text \<open>
  C5. The claim is that the key of the list element at index \<open>i\<close> is the composite key,
  the separator and \<open>i\<close>. The source writes \<^verbatim>\<open>f"{new_key}_{i}"\<close>: with the separator
  \<^verbatim>\<open>"."\<close> the elements of the list under \<^verbatim>\<open>"a"\<close> get the keys \<^verbatim>\<open>"a_0"\<close> and \<^verbatim>\<open>"a_1"\<close>, not
  \<^verbatim>\<open>"a.0"\<close> and \<^verbatim>\<open>"a.1"\<close>, while the key of a nested dictionary is joined with the
  separator, \<^verbatim>\<open>"a.b"\<close>.
\<close>

theorem flatten_dict_list_key_underscore:
  "flatten_dict [(''a'', VList [VInt 1, VInt 2])] [] ''.'' = [(''a_0'', VInt 1), (''a_1'', VInt 2)]
   \<and> flatten_dict [(''a'', VDict [(''b'', VInt 1)])] [] ''.'' = [(''a.b'', VInt 1)]"
  by code_simp

text \<open>
  C7. The dictionary that \<^verbatim>\<open>flatten_dict\<close> returns has one entry for each key, and the
  value under a key is the one of the last pair with that key among the pairs emitted
  over the traversal: looking a key up in the result is looking it up in the emitted
  pairs from the last one backwards. No case of the function raises.
\<close>

theorem flatten_dict_last_write_wins:
  "distinct (map fst (flatten_dict data parent_key sep))
   \<and> map_of (flatten_dict data parent_key sep) = map_of (rev (emit_items data parent_key sep))"
proof -
  have "distinct (map fst (flatten_dict data parent_key sep))"
    by (simp add: distinct_dict)
  moreover have "map_of (flatten_dict data parent_key sep)
      = map_of (rev (emit_items data parent_key sep))"
    by (rule flatten_emitted(1))
  ultimately show ?thesis by blast
qed

lemma flatten_dict_collision_example:
  "emit_items [(''a_b'', VInt 1), (''a'', VDict [(''b'', VInt 2)])] [] ''_''
     = [(''a_b'', VInt 1), (''a_b'', VInt 2)]
   \<and> flatten_dict [(''a_b'', VInt 1), (''a'', VDict [(''b'', VInt 2)])] [] ''_''
     = [(''a_b'', VInt 2)]"
  by code_simp

section \<open>The Matcher\<close>

text \<open>
  Whenever \<^verbatim>\<open>==\<close> holds, the loops of \<^verbatim>\<open>value_match\<close> run to their end, so on two lists
  and on two dictionaries the function returns what its last line returns: the loops
  decide nothing.
\<close>

lemma native_eq_matches:
  "py_eq a b \<Longrightarrow> value_match a b"
  "list_eq xs ys \<Longrightarrow> match_zip xs ys"
  "items_in m d \<Longrightarrow> match_keys m d"
  apply (induction a b and xs ys and m d rule: value_match_match_zip_match_keys.induct)
  apply (simp_all split: option.splits)
  done

lemma value_match_containers_native:
  "value_match (VList xs) (VList ys) = py_eq (VList xs) (VList ys)"
  "value_match (VDict m) (VDict d) = py_eq (VDict m) (VDict d)"
  using native_eq_matches(2) [of xs ys] native_eq_matches(3) [of m d] by auto

text \<open>
  C2. The claim is that two lists match when their elements match pairwise over the
  shorter length, so that \<^verbatim>\<open>value_match([1, 2, 3], [1, 2])\<close> is true. The loop over
  \<^verbatim>\<open>zip\<close> does run to its end on these lists, but the function then returns
  \<^verbatim>\<open>[1, 2, 3] == [1, 2]\<close>, which is false. \<^verbatim>\<open>value_match([1, 2], [1, 3])\<close> is false, as
  claimed.
\<close>

theorem value_match_list_falls_through:
  "match_zip [VInt 1, VInt 2, VInt 3] [VInt 1, VInt 2]
   \<and> \<not> value_match (VList [VInt 1, VInt 2, VInt 3]) (VList [VInt 1, VInt 2])
   \<and> \<not> value_match (VList [VInt 1, VInt 2]) (VList [VInt 1, VInt 3])"
  by code_simp

text \<open>
  C3. The claim is that two dictionaries match when every key of the first is in the
  second with a matching value, so that \<^verbatim>\<open>value_match({"a": 1}, {"a": 1, "b": 2})\<close> is
  true. The loop over the keys does run to its end, but the function then returns
  \<^verbatim>\<open>{"a": 1} == {"a": 1, "b": 2}\<close>, which is false.
  \<^verbatim>\<open>value_match({"a": 1, "b": 2}, {"a": 1})\<close> is false, as claimed.
\<close>

theorem value_match_dict_falls_through:
  "match_keys [(''a'', VInt 1)] [(''a'', VInt 1), (''b'', VInt 2)]
   \<and> \<not> value_match (VDict [(''a'', VInt 1)]) (VDict [(''a'', VInt 1), (''b'', VInt 2)])
   \<and> \<not> value_match (VDict [(''a'', VInt 1), (''b'', VInt 2)]) (VDict [(''a'', VInt 1)])"
  by code_simp

section \<open>The Container-checker\<close>

text \<open>The substring test is the library's \<open>sublist\<close>.\<close>

lemma starts_with_prefix: "starts_with xs ys = prefix xs ys"
  by (induction xs ys rule: starts_with.induct) simp_all

lemma str_in_sublist: "str_in a b = sublist a b"
  by (induction b) (simp_all add: starts_with_prefix sublist_Cons_right)

text \<open>
  C4. The claim is that a list is contained in another when each of its elements is
  contained in some element of the other, so that \<^verbatim>\<open>value_contains([1], [2, 1, 3])\<close> is
  true. The loop does run to its end, but the function then returns
  \<^verbatim>\<open>value_match([1], [2, 1, 3])\<close>, which is false. \<^verbatim>\<open>value_contains([1, 4], [1, 2])\<close> is
  false, as claimed.
\<close>

theorem value_contains_list_falls_through:
  "contains_all [VInt 1] [VInt 2, VInt 1, VInt 3]
   \<and> \<not> value_contains (VList [VInt 1]) (VList [VInt 2, VInt 1, VInt 3])
   \<and> \<not> value_contains (VList [VInt 1, VInt 4]) (VList [VInt 1, VInt 2])"
  by code_simp

text \<open>
  Removing all whitespace is not what the source does: a tab inside the needle stays, so
  \<^verbatim>\<open>value_contains("a\tb", "ab")\<close> is false, whereas the rule of the specification makes it
  true.
\<close>

theorem value_contains_str_tab_counterexample:
  "value_contains (VStr [CHR ''a'', CHR 0x09, CHR ''b'']) (VStr ''ab'')
     \<noteq> contains_str_spec [CHR ''a'', CHR 0x09, CHR ''b''] ''ab''"
  by code_simp

text \<open>
  C6, amended. On two strings \<^verbatim>\<open>value_contains\<close> removes the space characters U+0020
  from each, and only those, lowercases both, and returns whether the first result occurs
  in the second as a contiguous block; \<^verbatim>\<open>value_contains("foo bar", "xfoobary")\<close> is true
  and \<^verbatim>\<open>value_contains("hello", "world")\<close> is false.
\<close>

theorem value_contains_str_spaces:
  "value_contains (VStr a) (VStr b)
     = (\<exists>p q. map lower_char (filter (\<lambda>c. c \<noteq> CHR '' '') b)
            = p @ map lower_char (filter (\<lambda>c. c \<noteq> CHR '' '') a) @ q)
   \<and> value_contains (VStr ''foo bar'') (VStr ''xfoobary'')
   \<and> \<not> value_contains (VStr ''hello'') (VStr ''world'')"
proof -
  have "value_contains (VStr a) (VStr b)
     = (\<exists>p q. map lower_char (filter (\<lambda>c. c \<noteq> CHR '' '') b)
            = p @ map lower_char (filter (\<lambda>c. c \<noteq> CHR '' '') a) @ q)"
    by (simp add: str_in_sublist sublist_def lower_def replace_space_def)
  moreover have "value_contains (VStr ''foo bar'') (VStr ''xfoobary'')"
    by code_simp
  moreover have "\<not> value_contains (VStr ''hello'') (VStr ''world'')"
    by code_simp
  ultimately show ?thesis by blast
qed

text \<open>
  A needle of whitespace other than spaces is not contained in every string: a line feed
  is not in \<^verbatim>\<open>"abc"\<close>.
\<close>

theorem value_contains_newline_counterexample:
  "remove_whitespace_spec [CHR 0x0A] = []
   \<and> \<not> value_contains (VStr [CHR 0x0A]) (VStr ''abc'')"
  by code_simp

text \<open>
  C10, amended. A string that consists of space characters U+0020 only (the empty string
  among them) is contained in every string.
\<close>

theorem value_contains_blank_needle:
  "set a \<subseteq> {CHR '' ''} \<Longrightarrow> value_contains (VStr a) (VStr b)"
proof -
  assume "set a \<subseteq> {CHR '' ''}"
  then have "replace_space a = []"
    by (auto simp: replace_space_def filter_empty_conv)
  then show ?thesis
    by (simp add: str_in_sublist lower_def)
qed

theorem value_contains_blank_needle_witness:
  "set ''  '' \<subseteq> {CHR '' ''} \<and> value_contains (VStr ''  '') (VStr ''abc'')
   \<and> value_contains (VStr '''') (VStr ''abc'')"
  using value_contains_blank_needle [of "''  ''" "''abc''"]
    value_contains_blank_needle [of "''''" "''abc''"]
  by simp

text \<open>
  A float that is not a number is a Scalar and does not contain itself, since it is not
  equal to itself.
\<close>

theorem value_contains_nan_counterexample:
  "is_scalar (VFloat NaN) \<and> \<not> value_contains (VFloat NaN) (VFloat NaN)"
  by simp

text \<open>
  C8, amended. Every Scalar other than a not-a-number float, strings included, contains
  itself.
\<close>

theorem value_contains_refl_scalar:
  "is_scalar x \<Longrightarrow> x \<noteq> VFloat NaN \<Longrightarrow> value_contains x x"
proof (cases x)
  case (VFloat f)
  assume "x \<noteq> VFloat NaN"
  with VFloat show ?thesis by (cases f) simp_all
next
  case (VStr s)
  then show ?thesis by (simp add: str_in_sublist)
qed simp_all

theorem value_contains_refl_scalar_witness:
  "is_scalar (VInt 5) \<and> VInt 5 \<noteq> VFloat NaN \<and> value_contains (VInt 5) (VInt 5)
   \<and> is_scalar (VStr ''Foo Bar'') \<and> VStr ''Foo Bar'' \<noteq> VFloat NaN
   \<and> value_contains (VStr ''Foo Bar'') (VStr ''Foo Bar'')"
  using value_contains_refl_scalar [of "VInt 5"] value_contains_refl_scalar [of "VStr ''Foo Bar''"]
  by simp

section \<open>Termination and recursion depth\<close>

text \<open>
  The functions of the first part are total: their recursion is over finite values that
  get smaller. With as many frames as the value is deep (two more for the comparisons,
  whose Scalar case still calls \<^verbatim>\<open>value_match\<close>), the budgeted functions return, and
  return the same.
\<close>

lemma flatten_fuel_enough:
  "Suc (depth_items data) \<le> n \<Longrightarrow> flatten_dict_fuel n data p s = Some (flatten_dict data p s)"
  "depth_items data \<le> n \<Longrightarrow> flatten_items_fuel n data p s = Some (flatten_items data p s)"
  "depth v \<le> n \<Longrightarrow> flatten_value_fuel n k v p s = Some (flatten_value k v p s)"
  "Suc (depth_list xs) \<le> n \<Longrightarrow> flatten_enum_fuel n k i xs s = Some (flatten_enum k i xs s)"
proof (induction data p s and data p s and k v p s and k i xs s arbitrary: n and n and n and n
    rule: flatten_dict_flatten_items_flatten_value_flatten_enum.induct)
  case (1 data parent_key sep)
  then obtain n' where n: "n = Suc n'" and "depth_items data \<le> n'"
    by (cases n) auto
  with 1 show ?case by simp
next
  case (2 parent_key sep)
  show ?case by simp
next
  case (3 kv rest parent_key sep)
  then show ?case by simp
next
  case (4 k v parent_key sep)
  show ?case
  proof (cases v)
    case (VList xs)
    with 4(1) [OF refl VList] 4(3) show ?thesis
      by (cases "parent_key = []") (simp_all add: Let_def)
  next
    case (VDict d)
    with 4(2) [OF refl VDict] 4(3) show ?thesis
      by (cases "parent_key = []") (simp_all add: Let_def del: flatten_dict.simps)
  qed (simp_all add: Let_def)
next
  case (5 new_key i sep)
  show ?case by simp
next
  case (6 new_key i item rest sep)
  then show ?case by (simp del: flatten_dict.simps)
qed

lemma match_fuel_enough:
  "Suc (depth a) \<le> n \<Longrightarrow> value_match_fuel n a b = Some (value_match a b)"
  "Suc (depth_list xs) \<le> n \<Longrightarrow> match_zip_fuel n xs ys = Some (match_zip xs ys)"
  "Suc (depth_items m) \<le> n \<Longrightarrow> match_keys_fuel n m d = Some (match_keys m d)"
  apply (induction a b and xs ys and m d arbitrary: n and n and n
    rule: value_match_match_zip_match_keys.induct)
  apply (case_tac [!] n)
  apply (simp_all split: option.splits)
  done

lemma contains_fuel_enough:
  "Suc (Suc (depth a)) \<le> n \<Longrightarrow> value_contains_fuel n a b = Some (value_contains a b)"
  "Suc (Suc (depth_list xs)) \<le> n \<Longrightarrow> contains_all_fuel n xs ys = Some (contains_all xs ys)"
  "Suc (Suc (depth a)) \<le> n \<Longrightarrow> contains_any_fuel n a ys = Some (contains_any a ys)"
  "Suc (Suc (depth_items m)) \<le> n \<Longrightarrow> contains_keys_fuel n m d = Some (contains_keys m d)"
  apply (induction a b and xs ys and a ys and m d arbitrary: n and n and n and n
    rule: value_contains_contains_all_contains_any_contains_keys.induct)
  apply (case_tac [!] n)
  apply (simp_all add: match_fuel_enough split: option.splits del: value_match.simps)
  done

text \<open>
  C9. On every dictionary \<^verbatim>\<open>flatten_dict\<close> returns within a recursion depth of the
  nesting depth of the dictionary; on every two values \<^verbatim>\<open>value_match\<close> and
  \<^verbatim>\<open>value_contains\<close> return within a recursion depth of the nesting depth of the first
  value plus two.
\<close>

theorem total_within_nesting_depth:
  "depth (VDict data) \<le> n \<Longrightarrow> depth a + 2 \<le> n \<Longrightarrow>
     flatten_dict_fuel n data parent_key sep = Some (flatten_dict data parent_key sep)
     \<and> value_match_fuel n a b = Some (value_match a b)
     \<and> value_contains_fuel n a b = Some (value_contains a b)"
  by (simp add: flatten_fuel_enough(1) match_fuel_enough(1) contains_fuel_enough(1)
      del: flatten_dict.simps)

theorem total_within_nesting_depth_witness:
  "depth (VDict [(''a'', VList [VInt 1, VDict [(''c'', VInt 2)]])]) \<le> 3
   \<and> depth (VList [VStr ''x'']) + 2 \<le> 3
   \<and> flatten_dict_fuel 3 [(''a'', VList [VInt 1, VDict [(''c'', VInt 2)]])] [] ''_''
       = Some [(''a_0'', VInt 1), (''a_1_c'', VInt 2)]
   \<and> value_match_fuel 3 (VList [VStr ''x'']) (VList [VStr ''x'']) = Some True
   \<and> value_contains_fuel 3 (VList [VStr ''x'']) (VList [VStr ''x'']) = Some True"
proof -
  have d1: "depth (VDict [(''a'', VList [VInt 1, VDict [(''c'', VInt 2)]])]) \<le> 3"
    by simp
  have d2: "depth (VList [VStr ''x'']) + 2 \<le> 3"
    by simp
  have f: "flatten_dict [(''a'', VList [VInt 1, VDict [(''c'', VInt 2)]])] [] ''_''
      = [(''a_0'', VInt 1), (''a_1_c'', VInt 2)]"
    by code_simp
  have m: "value_match (VList [VStr ''x'']) (VList [VStr ''x''])"
    by code_simp
  have c: "value_contains (VList [VStr ''x'']) (VList [VStr ''x''])"
    by code_simp
  from total_within_nesting_depth [OF d1 d2, of "[]" "''_''" "VList [VStr ''x'']"] d1 d2 f m c
  show ?thesis by (simp del: flatten_dict.simps value_match.simps value_contains.simps depth.simps
    flatten_dict_fuel.simps value_match_fuel.simps value_contains_fuel.simps)
qed

text \<open>With one frame less these calls do not return.\<close>

lemma fuel_too_small:
  "flatten_dict_fuel 2 [(''a'', VList [VInt 1, VDict [(''c'', VInt 2)]])] [] ''_'' = None
   \<and> value_match_fuel 1 (VList [VStr ''x'']) (VList [VStr ''x'']) = None
   \<and> value_contains_fuel 2 (VList [VStr ''x'']) (VList [VStr ''x'']) = None"
  by code_simp

end
